theory Spec2Isabelle
  imports Main
begin

section \<open>Python strings\<close>

text \<open>
  A Python \<^verbatim>\<open>str\<close> is modelled as a \<^typ>\<open>string\<close>. The functions below are the
  string operations the agent uses: \<^verbatim>\<open>s.lower()\<close>, \<^verbatim>\<open>s.startswith(p)\<close>,
  \<^verbatim>\<open>sub in s\<close> and \<^verbatim>\<open>sep.join(xs)\<close>.

  \<^verbatim>\<open>lower\<close> maps the 26 ASCII capitals to their small letters and leaves every other
  character as it is. Python also lower-cases letters outside ASCII; those are outside this
  model, and every theorem below speaks about the lower-cased text, whatever produced it.
\<close>

definition ascii_uppercase :: string where
  "ascii_uppercase = ''ABCDEFGHIJKLMNOPQRSTUVWXYZ''"

definition ascii_lowercase :: string where
  "ascii_lowercase = ''abcdefghijklmnopqrstuvwxyz''"

definition lower_char :: "char \<Rightarrow> char" where
  "lower_char c = (case map_of (zip ascii_uppercase ascii_lowercase) c of
                     Some d \<Rightarrow> d
                   | None \<Rightarrow> c)"

definition lower :: "string \<Rightarrow> string" where
  "lower s = map lower_char s"

definition startswith :: "string \<Rightarrow> string \<Rightarrow> bool" where
  "startswith s p = (take (length p) s = p)"

text \<open>\<^verbatim>\<open>sub in s\<close>: \<open>sub\<close> occurs in \<open>s\<close> as a contiguous run of characters.\<close>

primrec str_in :: "string \<Rightarrow> string \<Rightarrow> bool" where
  "str_in sub [] = (sub = [])"
| "str_in sub (c # cs) = (startswith (c # cs) sub \<or> str_in sub cs)"

text \<open>\<^verbatim>\<open>sep.join(xs)\<close>\<close>

fun join :: "string \<Rightarrow> string list \<Rightarrow> string" where
  "join sep [] = []"
| "join sep [x] = x"
| "join sep (x # y # ys) = x @ sep @ join sep (y # ys)"

abbreviation NL :: string where
  "NL \<equiv> [CHR 0x0A]"

abbreviation QUOTE :: string where
  "QUOTE \<equiv> [CHR 0x27]"

section \<open>The knowledge base (rag.py)\<close>

text \<open>
  \<^verbatim>\<open>self.documents\<close> is a dict literal with the four fixed keys \<^verbatim>\<open>background\<close>,
  \<^verbatim>\<open>problem\<close>, \<^verbatim>\<open>hypotheses\<close> and \<^verbatim>\<open>constraints\<close>; nothing adds or removes a key, so
  it is a record with one field for each key.
\<close>

record documents =
  background :: string
  problem :: string
  hypotheses :: string
  constraints :: string

record BusinessKnowledgeBase =
  documents :: documents

definition BusinessKnowledgeBase_init :: BusinessKnowledgeBase where
  "BusinessKnowledgeBase_init = \<lparr>documents = \<lparr>
     background = ''ShopEase is a mid-size E-commerce Platform in India operating D2C + Marketplace models. Categories: Electronics, Fashion, Home & Kitchen, Beauty.'',
     problem = ''Leadership is concerned about increasing customer churn and declining repeat purchase rates, particularly from paid channels.'',
     hypotheses = ''Leadership suspects poor delivery experience, discount dependency, and low post-purchase engagement are contributing factors.'',
     constraints = ''Marketing budget is capped. Heavy discounting is discouraged. Focus on operational or engagement improvements.''\<rparr>\<rparr>"

text \<open>
  The list \<^verbatim>\<open>relevant_docs\<close> that \<^verbatim>\<open>retrieve_context\<close> builds: three independent
  \<^verbatim>\<open>if\<close> statements append in turn, and the background document is appended when
  the list is still empty.
\<close>

definition relevant_docs :: "BusinessKnowledgeBase \<Rightarrow> string \<Rightarrow> string list" where
  "relevant_docs self query0 =
     (let query = lower query0;
          docs1 = (if str_in ''churn'' query \<or> str_in ''problem'' query
                   then [problem (documents self)] else []);
          docs2 = (if str_in ''delivery'' query \<or> str_in ''discount'' query \<or> str_in ''suspect'' query
                   then docs1 @ [hypotheses (documents self)] else docs1);
          docs3 = (if str_in ''budget'' query \<or> str_in ''cost'' query
                   then docs2 @ [constraints (documents self)] else docs2)
      in if docs3 = [] then docs3 @ [background (documents self)] else docs3)"

definition retrieve_context :: "BusinessKnowledgeBase \<Rightarrow> string \<Rightarrow> string" where
  "retrieve_context self query = join NL (relevant_docs self query)"

section \<open>Exceptions, events and the outside world\<close>

text \<open>
  A raised exception is a value. \<open>ImportError\<close> is kept apart because the constructor of the
  agent has a handler of its own for it; \<open>Exception\<close> stands for every other instance of
  Python's class \<^verbatim>\<open>Exception\<close> (\<^verbatim>\<open>KeyError\<close>, \<^verbatim>\<open>OSError\<close>, ...); \<open>BaseException\<close> stands for
  what is raised outside that class (\<^verbatim>\<open>KeyboardInterrupt\<close>, \<^verbatim>\<open>SystemExit\<close>). The string is
  \<^verbatim>\<open>str(e)\<close>.
\<close>

datatype exn = ImportError string | Exception string | BaseException string

fun isinstance_ImportError :: "exn \<Rightarrow> bool" where
  "isinstance_ImportError (ImportError m) = True"
| "isinstance_ImportError (Exception m) = False"
| "isinstance_ImportError (BaseException m) = False"

fun isinstance_Exception :: "exn \<Rightarrow> bool" where
  "isinstance_Exception (ImportError m) = True"
| "isinstance_Exception (Exception m) = True"
| "isinstance_Exception (BaseException m) = False"

fun str_of :: "exn \<Rightarrow> string" where
  "str_of (ImportError m) = m"
| "str_of (Exception m) = m"
| "str_of (BaseException m) = m"

text \<open>The seven analysis tools of tools.py; \<open>tool_name\<close> is the name the planner prints.\<close>

datatype tool =
    Get_data_summary
  | Analyze_delivery_impact
  | Analyze_channel_performance
  | Analyze_city_performance
  | Analyze_demographics
  | Analyze_engagement
  | Train_predictive_model

fun tool_name :: "tool \<Rightarrow> string" where
  "tool_name Get_data_summary = ''get_data_summary''"
| "tool_name Analyze_delivery_impact = ''analyze_delivery_impact''"
| "tool_name Analyze_channel_performance = ''analyze_channel_performance''"
| "tool_name Analyze_city_performance = ''analyze_city_performance''"
| "tool_name Analyze_demographics = ''analyze_demographics''"
| "tool_name Analyze_engagement = ''analyze_engagement''"
| "tool_name Train_predictive_model = ''train_predictive_model''"

text \<open>The statements in the \<^verbatim>\<open>try\<close> block of the agent's constructor, in their order.\<close>

datatype setup_step =
    Import_langchain_agents
  | ChatPromptTemplate_from_messages
  | ChatOpenAI
  | Create_openai_tools_agent
  | AgentExecutor

text \<open>
  What a run does that can be observed, in the order it happens: a line printed, a call of
  \<^verbatim>\<open>get_business_context.invoke(query)\<close>, a call of an analysis tool's \<^verbatim>\<open>invoke\<close> with the
  dict of arguments it is given, a statement of the constructor's \<^verbatim>\<open>try\<close> block, a call of
  \<^verbatim>\<open>agent_executor.invoke\<close> with its dict.
\<close>

datatype event =
    Print string
  | Invoke_get_business_context string
  | Invoke tool "(string \<times> string) list"
  | Setup setup_step
  | Invoke_agent_executor "(string \<times> string) list"

record 'df DataAnalystTools =
  df :: "'df option"

text \<open>The two module-level singletons: \<^verbatim>\<open>_RAG_INSTANCE\<close> (rag.py) and \<^verbatim>\<open>_TOOLS_INSTANCE\<close> (tools.py).\<close>

record 'df globals =
  RAG_INSTANCE :: BusinessKnowledgeBase
  TOOLS_INSTANCE :: "'df DataAnalystTools option"

text \<open>
  The LangChain agent executor is outside the repository. It is modelled by what one call
  of its \<^verbatim>\<open>invoke\<close> does: given the query and the globals it prints and calls tools (events),
  may change the globals, and returns a dict or raises.
\<close>

type_synonym 'df executor =
  "string \<Rightarrow> 'df globals \<Rightarrow> event list \<times> 'df globals \<times> (exn + (string \<rightharpoonup> string))"

text \<open>
  Everything the code asks of its surroundings, as parameters: the environment variable, the
  outcome of each statement that builds the LangChain agent (\<open>None\<close>: no exception) and the
  executor built, the outcome of \<^verbatim>\<open>os.makedirs\<close> for the plot directory (\<open>None\<close> also when
  the directory exists), the outcome of reading and merging the four CSV files (the body of
  the \<^verbatim>\<open>try\<close> in \<^verbatim>\<open>load_data\<close>), and the outcome of each analysis method's pandas, sklearn and
  matplotlib code on a loaded data frame. The data frame type \<open>'df\<close> is left open.
\<close>

record 'df world =
  getenv_OPENAI_API_KEY :: "string option"
  setup_raises :: "setup_step \<Rightarrow> exn option"
  built_executor :: "'df executor"
  makedirs_raises :: "exn option"
  read_and_merge :: "exn + 'df"
  analysis :: "tool \<Rightarrow> 'df \<Rightarrow> exn + string"

section \<open>The analysis tools (tools.py)\<close>

definition load_data :: "'df world \<Rightarrow> 'df DataAnalystTools \<Rightarrow> exn + ('df DataAnalystTools \<times> string)" where
  "load_data w self =
     (case read_and_merge w of
        Inr d \<Rightarrow> Inr (self\<lparr>df := Some d\<rparr>, ''Data loaded successfully.'')
      | Inl e \<Rightarrow>
          if isinstance_Exception e then Inr (self, ''Error loading data: '' @ str_of e)
          else Inl e)"

text \<open>
  \<^verbatim>\<open>DataAnalystTools.__init__\<close>: \<^verbatim>\<open>self.df = None\<close>, the plot directory is created when it is
  missing, then \<^verbatim>\<open>load_data\<close> runs and its returned text is dropped. The two directory names
  only feed the file operations, which are parameters of the world.
\<close>

definition DataAnalystTools_init :: "'df world \<Rightarrow> exn + 'df DataAnalystTools" where
  "DataAnalystTools_init w =
     (case makedirs_raises w of
        Some e \<Rightarrow> Inl e
      | None \<Rightarrow>
          (case load_data w \<lparr>df = None\<rparr> of
             Inl e \<Rightarrow> Inl e
           | Inr (self, msg) \<Rightarrow> Inr self))"

definition get_tools_instance :: "'df world \<Rightarrow> 'df globals \<Rightarrow> 'df globals \<times> (exn + 'df DataAnalystTools)" where
  "get_tools_instance w g =
     (case TOOLS_INSTANCE g of
        Some inst \<Rightarrow> (g, Inr inst)
      | None \<Rightarrow>
          (case DataAnalystTools_init w of
             Inl e \<Rightarrow> (g, Inl e)
           | Inr inst \<Rightarrow> (g\<lparr>TOOLS_INSTANCE := Some inst\<rparr>, Inr inst)))"

text \<open>
  Each of the seven methods \<^verbatim>\<open>get_summary_stats\<close>, \<^verbatim>\<open>analyze_delivery_impact\<close>,
  \<^verbatim>\<open>analyze_channels\<close>, \<^verbatim>\<open>analyze_city_impact\<close>, \<^verbatim>\<open>analyze_demographics\<close>,
  \<^verbatim>\<open>analyze_engagement\<close> and \<^verbatim>\<open>train_model\<close> starts with the same guard
  \<^verbatim>\<open>if self.df is None: return "Error: Data not loaded."\<close> and then computes on the data
  frame with no handler around the computation.
\<close>

definition tool_method :: "'df world \<Rightarrow> tool \<Rightarrow> 'df DataAnalystTools \<Rightarrow> exn + string" where
  "tool_method w t self =
     (case df self of
        None \<Rightarrow> Inr ''Error: Data not loaded.''
      | Some d \<Rightarrow> analysis w t d)"

text \<open>
  \<^verbatim>\<open>t.invoke({})\<close> for an analysis tool \<open>t\<close>: the wrapper calls \<^verbatim>\<open>get_tools_instance()\<close> and then
  the method. The tools are declared with plain \<^verbatim>\<open>@tool\<close>, so an exception of the wrapped
  function leaves \<^verbatim>\<open>invoke\<close> as it is.
\<close>

definition invoke :: "'df world \<Rightarrow> tool \<Rightarrow> 'df globals \<Rightarrow> 'df globals \<times> (exn + string)" where
  "invoke w t g =
     (case get_tools_instance w g of
        (g', Inl e) \<Rightarrow> (g', Inl e)
      | (g', Inr inst) \<Rightarrow> (g', tool_method w t inst))"

definition get_business_context :: "'df globals \<Rightarrow> string \<Rightarrow> string" where
  "get_business_context g query = retrieve_context (RAG_INSTANCE g) query"

section \<open>The agent (agent.py)\<close>

record 'df ShopEaseAnalyst =
  use_mock :: bool
  agent_executor :: "'df executor option"

text \<open>
  The \<^verbatim>\<open>try\<close> block of the constructor runs its statements in order and stops at the first
  one that raises.
\<close>

fun run_setup :: "(setup_step \<Rightarrow> exn option) \<Rightarrow> setup_step list \<Rightarrow> event list \<times> exn option" where
  "run_setup f [] = ([], None)"
| "run_setup f (s # ss) =
     (case f s of
        Some e \<Rightarrow> ([Setup s], Some e)
      | None \<Rightarrow> (case run_setup f ss of (evs, r) \<Rightarrow> (Setup s # evs, r)))"

definition setup_steps :: "setup_step list" where
  "setup_steps = [Import_langchain_agents, ChatPromptTemplate_from_messages, ChatOpenAI,
                  Create_openai_tools_agent, AgentExecutor]"

text \<open>
  \<^verbatim>\<open>ShopEaseAnalyst.__init__\<close>. \<^verbatim>\<open>not api_key\<close> holds for \<^verbatim>\<open>None\<close> and for the empty
  string. The attribute \<^verbatim>\<open>agent_executor\<close> exists only after the last statement of the
  \<^verbatim>\<open>try\<close> block.
\<close>

definition ShopEaseAnalyst_init :: "'df world \<Rightarrow> event list \<times> (exn + 'df ShopEaseAnalyst)" where
  "ShopEaseAnalyst_init w =
     (let api_key = getenv_OPENAI_API_KEY w in
      if api_key = None \<or> api_key = Some [] \<or> startswith (the api_key) ''paste_your''
      then ([Print ''[SYSTEM] No valid OPENAI_API_KEY found. Switching to MOCK AGENT mode.''],
            Inr \<lparr>use_mock = True, agent_executor = None\<rparr>)
      else
        (case run_setup (setup_raises w) setup_steps of
           (evs, None) \<Rightarrow>
             (evs, Inr \<lparr>use_mock = False, agent_executor = Some (built_executor w)\<rparr>)
         | (evs, Some e) \<Rightarrow>
             if isinstance_ImportError e
             then (evs @ [Print ''[SYSTEM] LangChain version incompatible. Switching to MOCK AGENT mode.''],
                   Inr \<lparr>use_mock = True, agent_executor = None\<rparr>)
             else if isinstance_Exception e
             then (evs @ [Print (''[SYSTEM] Error initializing OpenAI Agent: '' @ str_of e
                                 @ ''. Switching to MOCK AGENT mode.'')],
                   Inr \<lparr>use_mock = True, agent_executor = None\<rparr>)
             else (evs, Inl e)))"

text \<open>
  The keyword routing of \<^verbatim>\<open>_mock_process_query\<close> on the lower-cased query \<open>q\<close>: the tool
  of the first branch whose test holds, and the value of \<^verbatim>\<open>plan\<close> after that branch.
  \<^verbatim>\<open>plan\<close> starts as \<^verbatim>\<open>"check context"\<close>; the branches for demographics, engagement
  and the summary do not assign it.
\<close>

definition keyword_routing :: "string \<Rightarrow> tool \<times> string" where
  "keyword_routing q =
     (let plan = ''check context'' in
      if str_in ''delivery'' q then (Analyze_delivery_impact, ''investigate delivery times'')
      else if str_in ''channel'' q then (Analyze_channel_performance, ''check acquisition channels'')
      else if str_in ''city'' q \<or> str_in ''region'' q then (Analyze_city_performance, ''check city breaks'')
      else if str_in ''gender'' q \<or> str_in ''demograph'' q then (Analyze_demographics, plan)
      else if str_in ''visit'' q \<or> str_in ''engage'' q then (Analyze_engagement, plan)
      else if str_in ''model'' q \<or> str_in ''predict'' q \<or> str_in ''driver'' q
      then (Train_predictive_model, ''train ML model'')
      else (Get_data_summary, plan))"

text \<open>The f-string \<^verbatim>\<open>final_response\<close>.\<close>

definition recommendation_footer :: string where
  "recommendation_footer =
     ''Recommendation:'' @ NL
     @ ''(Simulated) Please investigate the highlighted metrics above, specifically targeting high-churn segments.'' @ NL
     @ ''----------------------'' @ NL"

definition final_response :: "string \<Rightarrow> string \<Rightarrow> string" where
  "final_response plan result =
     NL @ ''--- AGENT RESPONSE (MOCK MODE) ---'' @ NL
     @ ''Based on the Mock Logic: The user asked about '' @ QUOTE @ plan @ QUOTE @ ''.'' @ NL
     @ NL
     @ ''Analysis Result:'' @ NL
     @ result @ NL
     @ NL
     @ recommendation_footer"

text \<open>
  \<^verbatim>\<open>_mock_process_query\<close>. It has no \<^verbatim>\<open>try\<close>: when the tool's \<^verbatim>\<open>invoke\<close> raises, the
  exception leaves the method, after the events up to the call.
\<close>

definition mock_process_query ::
  "'df world \<Rightarrow> 'df globals \<Rightarrow> string \<Rightarrow> event list \<times> 'df globals \<times> (exn + string)" where
  "mock_process_query w g query =
     (let context = get_business_context g query;
          log1 = [Print ''[MOCK-AGENT] Consulting Knowledge Base...'',
                  Invoke_get_business_context query,
                  Print (''[MOCK-AGENT] Retrieved Context: '' @ take 50 context @ ''...'')];
          q = lower query
      in case keyword_routing q of
           (t, plan) \<Rightarrow>
             (let log2 = log1 @ [Print (''[MOCK-AGENT] Decided to call tool: '' @ tool_name t),
                                 Invoke t []]
              in case invoke w t g of
                   (g', Inl e) \<Rightarrow> (log2, g', Inl e)
                 | (g', Inr result) \<Rightarrow> (log2, g', Inr (final_response plan result))))"

text \<open>
  \<^verbatim>\<open>process_query\<close>. In the \<^verbatim>\<open>else\<close> branch the \<^verbatim>\<open>try\<close> covers the attribute lookup
  \<^verbatim>\<open>self.agent_executor\<close>, the call and \<^verbatim>\<open>response["output"]\<close>; the handler is
  \<^verbatim>\<open>except Exception\<close>.
\<close>

definition fall_back ::
  "'df world \<Rightarrow> event list \<Rightarrow> exn \<Rightarrow> 'df globals \<Rightarrow> string \<Rightarrow> event list \<times> 'df globals \<times> (exn + string)" where
  "fall_back w evs e g query =
     (case mock_process_query w g query of
        (evs', g', r) \<Rightarrow>
          (evs @ [Print (''[ERROR] LangChain execution failed: '' @ str_of e @ ''. Falling back to Mock.'')] @ evs',
           g', r))"

definition process_query ::
  "'df world \<Rightarrow> 'df ShopEaseAnalyst \<Rightarrow> 'df globals \<Rightarrow> string \<Rightarrow> event list \<times> 'df globals \<times> (exn + string)" where
  "process_query w self g query =
     (let log0 = [Print (NL @ ''[AGENT] Received Query: '' @ QUOTE @ query @ QUOTE)] in
      if use_mock self then
        (case mock_process_query w g query of (evs, g', r) \<Rightarrow> (log0 @ evs, g', r))
      else
        (case agent_executor self of
           None \<Rightarrow>
             fall_back w log0
               (Exception (QUOTE @ ''ShopEaseAnalyst'' @ QUOTE @ '' object has no attribute ''
                           @ QUOTE @ ''agent_executor'' @ QUOTE)) g query
         | Some ex \<Rightarrow>
             (case ex query g of
                (evs, g', Inr response) \<Rightarrow>
                  (case response ''output'' of
                     Some out \<Rightarrow> (log0 @ [Invoke_agent_executor [(''input'', query)]] @ evs, g', Inr out)
                   | None \<Rightarrow>
                       fall_back w (log0 @ [Invoke_agent_executor [(''input'', query)]] @ evs)
                         (Exception (QUOTE @ ''output'' @ QUOTE)) g' query)
              | (evs, g', Inl e) \<Rightarrow>
                  if isinstance_Exception e
                  then fall_back w (log0 @ [Invoke_agent_executor [(''input'', query)]] @ evs) e g' query
                  else (log0 @ [Invoke_agent_executor [(''input'', query)]] @ evs, g', Inl e))))"

section \<open>Concrete worlds\<close>

text \<open>
  Worlds on which the theorems below are instantiated; a data frame is stood for by a number.
  In \<open>example_world\<close> the credential is the placeholder, the CSV files load and every analysis
  returns a text; the executor it would build fails on every call. In \<open>unloaded_world\<close> the
  CSV files are missing. In \<open>keyerror_world\<close> the files load, but the merged frame has no
  column \<^verbatim>\<open>is_churned\<close>, so the first subscript of every analysis raises \<^verbatim>\<open>KeyError\<close>.
  \<open>primary_agent\<close> is an agent in primary mode whose executor fails with a connection error;
  the executor of \<open>interrupted_agent\<close> is interrupted from the keyboard during its call
  (\<^verbatim>\<open>str(KeyboardInterrupt())\<close> is the empty string).
\<close>

definition example_world :: "nat world" where
  "example_world = \<lparr>
     getenv_OPENAI_API_KEY = Some ''paste_your_key_here'',
     setup_raises = (\<lambda>s. None),
     built_executor = (\<lambda>query g. ([], g, Inl (Exception ''Connection error.''))),
     makedirs_raises = None,
     read_and_merge = Inr 500,
     analysis = (\<lambda>t d. Inr (''result of '' @ tool_name t))\<rparr>"

definition unloaded_world :: "nat world" where
  "unloaded_world = example_world\<lparr>read_and_merge := Inl (Exception ''customers.csv not found'')\<rparr>"

definition keyerror_world :: "nat world" where
  "keyerror_world = example_world\<lparr>analysis := (\<lambda>t d. Inl (Exception (QUOTE @ ''is_churned'' @ QUOTE)))\<rparr>"

definition example_globals :: "nat globals" where
  "example_globals = \<lparr>RAG_INSTANCE = BusinessKnowledgeBase_init, TOOLS_INSTANCE = None\<rparr>"

definition primary_agent :: "nat ShopEaseAnalyst" where
  "primary_agent = \<lparr>use_mock = False, agent_executor = Some (built_executor example_world)\<rparr>"

definition interrupted_agent :: "nat ShopEaseAnalyst" where
  "interrupted_agent =
     \<lparr>use_mock = False, agent_executor = Some (\<lambda>query g. ([], g, Inl (BaseException [])))\<rparr>"

section \<open>Properties of the string operations\<close>

lemma startswith_iff: "startswith s p \<longleftrightarrow> (\<exists>ss. s = p @ ss)"
proof
  assume "startswith s p"
  then have "s = p @ drop (length p) s"
    by (metis append_take_drop_id startswith_def)
  then show "\<exists>ss. s = p @ ss" ..
next
  assume "\<exists>ss. s = p @ ss"
  then show "startswith s p"
    by (auto simp: startswith_def)
qed

lemma str_in_iff: "str_in sub s \<longleftrightarrow> (\<exists>ps ss. s = ps @ sub @ ss)"
proof (induction s)
  case Nil
  then show ?case by auto
next
  case (Cons c cs)
  show ?case
  proof
    assume "str_in sub (c # cs)"
    then consider "startswith (c # cs) sub" | "str_in sub cs" by auto
    then show "\<exists>ps ss. c # cs = ps @ sub @ ss"
    proof cases
      case 1
      then obtain ss where "c # cs = sub @ ss" by (auto simp: startswith_iff)
      then have "c # cs = [] @ sub @ ss" by simp
      then show ?thesis by blast
    next
      case 2
      then obtain ps ss where "cs = ps @ sub @ ss" using Cons.IH by auto
      then have "c # cs = (c # ps) @ sub @ ss" by simp
      then show ?thesis by blast
    qed
  next
    assume "\<exists>ps ss. c # cs = ps @ sub @ ss"
    then obtain ps ss where eq: "c # cs = ps @ sub @ ss" by blast
    show "str_in sub (c # cs)"
    proof (cases ps)
      case Nil
      with eq have "startswith (c # cs) sub" by (auto simp: startswith_iff)
      then show ?thesis by simp
    next
      case (Cons p ps')
      with eq have "cs = ps' @ sub @ ss" by simp
      then have "str_in sub cs" using Cons.IH by blast
      then show ?thesis by simp
    qed
  qed
qed

section \<open>Helper lemmas on the tools and the planner\<close>

lemma mock_process_query_eq:
  assumes "keyword_routing (lower query) = (t, plan)" and "invoke w t g = (g', r)"
  shows "mock_process_query w g query =
           ([Print ''[MOCK-AGENT] Consulting Knowledge Base...'',
             Invoke_get_business_context query,
             Print (''[MOCK-AGENT] Retrieved Context: '' @ take 50 (get_business_context g query) @ ''...''),
             Print (''[MOCK-AGENT] Decided to call tool: '' @ tool_name t),
             Invoke t []],
            g',
            (case r of Inl e \<Rightarrow> Inl e | Inr result \<Rightarrow> Inr (final_response plan result)))"
  using assms by (simp add: mock_process_query_def Let_def split: sum.splits)

lemma invoke_RAG_INSTANCE:
  "invoke w t (g\<lparr>RAG_INSTANCE := kb\<rparr>) = (fst (invoke w t g)\<lparr>RAG_INSTANCE := kb\<rparr>, snd (invoke w t g))"
  by (simp add: invoke_def get_tools_instance_def split: option.splits sum.splits)

lemma invoke_unloaded:
  assumes "TOOLS_INSTANCE g = None" and "makedirs_raises w = None"
    and "read_and_merge w = Inl e" and "isinstance_Exception e"
  shows "invoke w t g = (g\<lparr>TOOLS_INSTANCE := Some \<lparr>df = None\<rparr>\<rparr>, Inr ''Error: Data not loaded.'')"
  using assms
  by (simp add: invoke_def get_tools_instance_def DataAnalystTools_init_def load_data_def tool_method_def)

lemma relevant_docs_rules:
  "relevant_docs self query =
     (let q = lower query;
          ds = (if str_in ''churn'' q \<or> str_in ''problem'' q then [problem (documents self)] else [])
             @ (if str_in ''delivery'' q \<or> str_in ''discount'' q \<or> str_in ''suspect'' q
                then [hypotheses (documents self)] else [])
             @ (if str_in ''budget'' q \<or> str_in ''cost'' q then [constraints (documents self)] else [])
      in if ds = [] then [background (documents self)] else ds)"
  by (simp add: relevant_docs_def Let_def)

section \<open>Retrieval from the knowledge base\<close>

lemmas eval_strings = lower_def lower_char_def ascii_uppercase_def ascii_lowercase_def startswith_def

text \<open>
  Claim C6. The three keyword rules of the knowledge base are tested independently. A query
  whose lower-cased text matches two of them gets both documents, in the order problem,
  hypotheses, constraints (and the third one in its place when its rule matches too); the
  text returned joins them with a newline. For churn and budget: the problem document, a
  newline, the constraints document.
\<close>

theorem retrieve_context_two_rules:
  fixes self :: BusinessKnowledgeBase and query :: string
  defines "q \<equiv> lower query"
  defines "r1 \<equiv> str_in ''churn'' q \<or> str_in ''problem'' q"
  defines "r2 \<equiv> str_in ''delivery'' q \<or> str_in ''discount'' q \<or> str_in ''suspect'' q"
  defines "r3 \<equiv> str_in ''budget'' q \<or> str_in ''cost'' q"
  shows "(r1 \<and> r3 \<longrightarrow>
            relevant_docs self query =
              [problem (documents self)] @ (if r2 then [hypotheses (documents self)] else [])
              @ [constraints (documents self)])
       \<and> (r1 \<and> r2 \<longrightarrow>
            relevant_docs self query =
              [problem (documents self), hypotheses (documents self)]
              @ (if r3 then [constraints (documents self)] else []))
       \<and> (r2 \<and> r3 \<longrightarrow>
            relevant_docs self query =
              (if r1 then [problem (documents self)] else [])
              @ [hypotheses (documents self), constraints (documents self)])
       \<and> (r1 \<and> \<not> r2 \<and> r3 \<longrightarrow>
            retrieve_context self query = problem (documents self) @ NL @ constraints (documents self))
       \<and> (r1 \<and> r2 \<and> \<not> r3 \<longrightarrow>
            retrieve_context self query = problem (documents self) @ NL @ hypotheses (documents self))
       \<and> (\<not> r1 \<and> r2 \<and> r3 \<longrightarrow>
            retrieve_context self query = hypotheses (documents self) @ NL @ constraints (documents self))
       \<and> (r1 \<and> r2 \<and> r3 \<longrightarrow>
            retrieve_context self query =
              problem (documents self) @ NL @ hypotheses (documents self) @ NL @ constraints (documents self))"
  unfolding q_def r1_def r2_def r3_def retrieve_context_def relevant_docs_rules Let_def
  by simp

lemma lower_churn_budget: "lower ''Churn vs budget'' = ''churn vs budget''"
  by (simp add: eval_strings)

lemma churn_budget_rules:
  "str_in ''churn'' ''churn vs budget''" "str_in ''budget'' ''churn vs budget''"
  "\<not> str_in ''delivery'' ''churn vs budget''" "\<not> str_in ''discount'' ''churn vs budget''"
  "\<not> str_in ''suspect'' ''churn vs budget''"
  by (simp_all add: startswith_def)

theorem retrieve_context_two_rules_witness:
  "relevant_docs BusinessKnowledgeBase_init ''Churn vs budget'' =
     [problem (documents BusinessKnowledgeBase_init), constraints (documents BusinessKnowledgeBase_init)]
   \<and> retrieve_context BusinessKnowledgeBase_init ''Churn vs budget'' =
       problem (documents BusinessKnowledgeBase_init) @ NL @ constraints (documents BusinessKnowledgeBase_init)"
  using retrieve_context_two_rules [of "''Churn vs budget''" BusinessKnowledgeBase_init]
  unfolding lower_churn_budget
  by (simp only: churn_budget_rules simp_thms if_True if_False append.simps)

text \<open>
  Claim C7. A query whose lower-cased text matches none of the three keyword rules of the
  knowledge base gets the background document and nothing else, and the list of retrieved
  documents is never empty.
\<close>

theorem retrieve_context_default:
  fixes self :: BusinessKnowledgeBase and query :: string
  defines "q \<equiv> lower query"
  shows "(\<not> (str_in ''churn'' q \<or> str_in ''problem'' q)
          \<and> \<not> (str_in ''delivery'' q \<or> str_in ''discount'' q \<or> str_in ''suspect'' q)
          \<and> \<not> (str_in ''budget'' q \<or> str_in ''cost'' q)
          \<longrightarrow> relevant_docs self query = [background (documents self)]
              \<and> retrieve_context self query = background (documents self))
       \<and> relevant_docs self query \<noteq> []"
  unfolding q_def retrieve_context_def relevant_docs_rules Let_def
  by simp

theorem retrieve_context_default_witness:
  "relevant_docs BusinessKnowledgeBase_init ''Hello'' = [background (documents BusinessKnowledgeBase_init)]
   \<and> retrieve_context BusinessKnowledgeBase_init ''Hello'' = background (documents BusinessKnowledgeBase_init)"
  using retrieve_context_default [of "''Hello''" BusinessKnowledgeBase_init]
  by (simp add: eval_strings)

section \<open>Keyword routing of the mock planner\<close>

lemma invoke_cases:
  obtains g' r where "invoke w t g = (g', r)"
  by (cases "invoke w t g") auto

lemma keyword_routing_delivery:
  "str_in ''delivery'' q \<Longrightarrow>
     keyword_routing q = (Analyze_delivery_impact, ''investigate delivery times'')"
  by (simp add: keyword_routing_def)

lemma keyword_routing_summary:
  assumes "\<not> str_in ''delivery'' q" "\<not> str_in ''channel'' q"
    "\<not> str_in ''city'' q" "\<not> str_in ''region'' q"
    "\<not> str_in ''gender'' q" "\<not> str_in ''demograph'' q"
    "\<not> str_in ''visit'' q" "\<not> str_in ''engage'' q"
    "\<not> str_in ''model'' q" "\<not> str_in ''predict'' q" "\<not> str_in ''driver'' q"
  shows "keyword_routing q = (Get_data_summary, ''check context'')"
  using assms by (simp add: keyword_routing_def)

lemma mock_process_query_log:
  "fst (mock_process_query w g query) =
     [Print ''[MOCK-AGENT] Consulting Knowledge Base...'',
      Invoke_get_business_context query,
      Print (''[MOCK-AGENT] Retrieved Context: '' @ take 50 (get_business_context g query) @ ''...''),
      Print (''[MOCK-AGENT] Decided to call tool: '' @ tool_name (fst (keyword_routing (lower query)))),
      Invoke (fst (keyword_routing (lower query))) []]"
proof -
  obtain t plan where kr: "keyword_routing (lower query) = (t, plan)"
    by (cases "keyword_routing (lower query)") auto
  obtain g' r where inv: "invoke w t g = (g', r)"
    by (rule invoke_cases)
  show ?thesis
    by (simp add: mock_process_query_eq [OF kr inv] kr)
qed

lemma mock_process_query_result:
  assumes "keyword_routing (lower query) = (t, plan)"
  shows "snd (snd (mock_process_query w g query)) =
           (case snd (invoke w t g) of
              Inl e \<Rightarrow> Inl e
            | Inr result \<Rightarrow> Inr (final_response plan result))"
proof -
  obtain g' r where inv: "invoke w t g = (g', r)"
    by (rule invoke_cases)
  show ?thesis
    by (simp add: mock_process_query_eq [OF assms inv] inv)
qed

lemma invoke_example:
  "invoke example_world t example_globals =
     (example_globals\<lparr>TOOLS_INSTANCE := Some \<lparr>df = Some 500\<rparr>\<rparr>, Inr (''result of '' @ tool_name t))"
  by (simp add: invoke_def get_tools_instance_def DataAnalystTools_init_def load_data_def
      tool_method_def example_world_def example_globals_def)



lemma lower_hello: "lower ''Hello'' = ''hello''"
  by (simp add: eval_strings)

lemma hello_rules:
  "\<not> str_in ''delivery'' ''hello''" "\<not> str_in ''channel'' ''hello''"
  "\<not> str_in ''city'' ''hello''" "\<not> str_in ''region'' ''hello''"
  "\<not> str_in ''gender'' ''hello''" "\<not> str_in ''demograph'' ''hello''"
  "\<not> str_in ''visit'' ''hello''" "\<not> str_in ''engage'' ''hello''"
  "\<not> str_in ''model'' ''hello''" "\<not> str_in ''predict'' ''hello''"
  "\<not> str_in ''driver'' ''hello''"
  by (simp_all add: startswith_def)





section \<open>Plan labels\<close>

lemma lower_gender: "lower ''Gender split?'' = ''gender split?''"
  by (simp add: eval_strings)

lemma gender_rules:
  "\<not> str_in ''delivery'' ''gender split?''" "\<not> str_in ''channel'' ''gender split?''"
  "\<not> str_in ''city'' ''gender split?''" "\<not> str_in ''region'' ''gender split?''"
  "str_in ''gender'' ''gender split?''"
  by (simp_all add: startswith_def)

text \<open>
  Claim C10. The plan label starts as "check context". The branches for demographics,
  engagement and the summary leave it so; the branches for delivery, channel, city or region
  and the predictive model each assign a label of their own. The response is built from the
  label the branch leaves and the text the tool returns.
\<close>

theorem default_plan_label:
  fixes query :: string
  defines "q \<equiv> lower query"
  defines "earlier \<equiv> str_in ''delivery'' q \<or> str_in ''channel'' q \<or> str_in ''city'' q \<or> str_in ''region'' q"
  defines "demographics \<equiv> str_in ''gender'' q \<or> str_in ''demograph'' q"
  defines "engagement \<equiv> str_in ''visit'' q \<or> str_in ''engage'' q"
  defines "model \<equiv> str_in ''model'' q \<or> str_in ''predict'' q \<or> str_in ''driver'' q"
  shows "(\<not> earlier \<and> demographics \<longrightarrow> keyword_routing q = (Analyze_demographics, ''check context''))
       \<and> (\<not> earlier \<and> \<not> demographics \<and> engagement \<longrightarrow>
            keyword_routing q = (Analyze_engagement, ''check context''))
       \<and> (\<not> earlier \<and> \<not> demographics \<and> \<not> engagement \<and> \<not> model \<longrightarrow>
            keyword_routing q = (Get_data_summary, ''check context''))
       \<and> (snd (keyword_routing q) = ''check context'' \<longleftrightarrow>
            fst (keyword_routing q) \<in> {Analyze_demographics, Analyze_engagement, Get_data_summary})
       \<and> (fst (keyword_routing q) = Analyze_delivery_impact \<longrightarrow>
            snd (keyword_routing q) = ''investigate delivery times'')
       \<and> (fst (keyword_routing q) = Analyze_channel_performance \<longrightarrow>
            snd (keyword_routing q) = ''check acquisition channels'')
       \<and> (fst (keyword_routing q) = Analyze_city_performance \<longrightarrow>
            snd (keyword_routing q) = ''check city breaks'')
       \<and> (fst (keyword_routing q) = Train_predictive_model \<longrightarrow>
            snd (keyword_routing q) = ''train ML model'')
       \<and> (\<forall>g' result. invoke w (fst (keyword_routing q)) g = (g', Inr result) \<longrightarrow>
            snd (snd (mock_process_query w g query)) =
              Inr (final_response (snd (keyword_routing q)) result))"
proof -
  have branches: "(\<not> earlier \<and> demographics \<longrightarrow> keyword_routing q = (Analyze_demographics, ''check context''))
       \<and> (\<not> earlier \<and> \<not> demographics \<and> engagement \<longrightarrow>
            keyword_routing q = (Analyze_engagement, ''check context''))
       \<and> (\<not> earlier \<and> \<not> demographics \<and> \<not> engagement \<and> \<not> model \<longrightarrow>
            keyword_routing q = (Get_data_summary, ''check context''))"
    unfolding earlier_def demographics_def engagement_def model_def
    by (simp add: keyword_routing_def)
  have labels: "(snd (keyword_routing q) = ''check context'' \<longleftrightarrow>
            fst (keyword_routing q) \<in> {Analyze_demographics, Analyze_engagement, Get_data_summary})
       \<and> (fst (keyword_routing q) = Analyze_delivery_impact \<longrightarrow>
            snd (keyword_routing q) = ''investigate delivery times'')
       \<and> (fst (keyword_routing q) = Analyze_channel_performance \<longrightarrow>
            snd (keyword_routing q) = ''check acquisition channels'')
       \<and> (fst (keyword_routing q) = Analyze_city_performance \<longrightarrow>
            snd (keyword_routing q) = ''check city breaks'')
       \<and> (fst (keyword_routing q) = Train_predictive_model \<longrightarrow>
            snd (keyword_routing q) = ''train ML model'')"
    by (simp add: keyword_routing_def Let_def)
  have response: "\<forall>g' result. invoke w (fst (keyword_routing q)) g = (g', Inr result) \<longrightarrow>
            snd (snd (mock_process_query w g query)) =
              Inr (final_response (snd (keyword_routing q)) result)"
    unfolding q_def
    by (simp add: mock_process_query_result [of query "fst (keyword_routing (lower query))"
          "snd (keyword_routing (lower query))"])
  from branches labels response show ?thesis by blast
qed

theorem default_plan_label_witness:
  "keyword_routing (lower ''Gender split?'') = (Analyze_demographics, ''check context'')
   \<and> snd (snd (mock_process_query example_world example_globals ''Gender split?'')) =
       Inr (final_response ''check context'' ''result of analyze_demographics'')"
proof -
  note inst = default_plan_label [of "''Gender split?''" example_world example_globals]
  have kr: "keyword_routing (lower ''Gender split?'') = (Analyze_demographics, ''check context'')"
    using inst by (simp only: lower_gender gender_rules simp_thms)
  have "snd (snd (mock_process_query example_world example_globals ''Gender split?'')) =
          Inr (final_response (snd (keyword_routing (lower ''Gender split?'')))
                 (''result of '' @ tool_name Analyze_demographics))"
    using inst invoke_example [of "fst (keyword_routing (lower ''Gender split?''))"]
    by (simp add: kr)
  with kr show ?thesis by simp
qed

section \<open>The retrieved context and tool failures\<close>

lemma invoke_df_None:
  assumes "TOOLS_INSTANCE g = Some inst" and "df inst = None"
  shows "invoke w t g = (g, Inr ''Error: Data not loaded.'')"
  using assms by (simp add: invoke_def get_tools_instance_def tool_method_def)

text \<open>
  Claim C9. The planner calls the knowledge base with the raw query first; the retrieved
  text is printed (its first 50 characters) and used nowhere else. The tool is chosen from
  the lower-cased query alone and is called with the empty dict. Replacing the knowledge
  base by any other changes neither the tool call nor the outcome of the planner.
\<close>

theorem context_is_diagnostic_only:
  "fst (mock_process_query w g query) =
     [Print ''[MOCK-AGENT] Consulting Knowledge Base...'',
      Invoke_get_business_context query,
      Print (''[MOCK-AGENT] Retrieved Context: ''
             @ take 50 (retrieve_context (RAG_INSTANCE g) query) @ ''...''),
      Print (''[MOCK-AGENT] Decided to call tool: '' @ tool_name (fst (keyword_routing (lower query)))),
      Invoke (fst (keyword_routing (lower query))) []]
   \<and> drop 3 (fst (mock_process_query w (g\<lparr>RAG_INSTANCE := kb\<rparr>) query)) =
       drop 3 (fst (mock_process_query w g query))
   \<and> snd (snd (mock_process_query w (g\<lparr>RAG_INSTANCE := kb\<rparr>) query)) =
       snd (snd (mock_process_query w g query))"
proof -
  obtain t plan where kr: "keyword_routing (lower query) = (t, plan)"
    by (cases "keyword_routing (lower query)") auto
  have "snd (invoke w t (g\<lparr>RAG_INSTANCE := kb\<rparr>)) = snd (invoke w t g)"
    by (simp add: invoke_RAG_INSTANCE)
  then have "snd (snd (mock_process_query w (g\<lparr>RAG_INSTANCE := kb\<rparr>) query)) =
       snd (snd (mock_process_query w g query))"
    by (simp add: mock_process_query_result [OF kr])
  then show ?thesis
    by (simp add: mock_process_query_log get_business_context_def)
qed

theorem context_is_diagnostic_only_witness:
  "snd (snd (mock_process_query example_world
               (example_globals\<lparr>RAG_INSTANCE := \<lparr>documents = \<lparr>background = ''B'', problem = ''P'',
                  hypotheses = ''H'', constraints = ''C''\<rparr>\<rparr>\<rparr>) ''Hello'')) =
     snd (snd (mock_process_query example_world example_globals ''Hello''))"
  using context_is_diagnostic_only [of example_world example_globals "''Hello''"
      "\<lparr>documents = \<lparr>background = ''B'', problem = ''P'', hypotheses = ''H'', constraints = ''C''\<rparr>\<rparr>"]
  by blast

text \<open>
  Claim C8, at a concrete input: the CSV files load, the merged frame has no column
  \<^verbatim>\<open>is_churned\<close>, and the summary tool's first subscript raises \<^verbatim>\<open>KeyError\<close>. The planner
  has no handler, so the exception leaves it and no response is produced.
\<close>

theorem planner_raises_counterexample:
  "snd (snd (mock_process_query keyerror_world example_globals ''Hello'')) =
     Inl (Exception (QUOTE @ ''is_churned'' @ QUOTE))"
proof -
  have kr: "keyword_routing (lower ''Hello'') = (Get_data_summary, ''check context'')"
    by (rule keyword_routing_summary) (simp_all only: lower_hello hello_rules not_False_eq_True)
  have "snd (invoke keyerror_world Get_data_summary example_globals) =
          Inl (Exception (QUOTE @ ''is_churned'' @ QUOTE))"
    by (simp add: invoke_def get_tools_instance_def DataAnalystTools_init_def load_data_def
        tool_method_def example_world_def keyerror_world_def example_globals_def)
  then show ?thesis
    by (simp add: mock_process_query_result [OF kr])
qed

text \<open>
  Claim C8, amended. Whenever the tool the planner calls returns a text, the planner returns
  a complete response that embeds it. That is the case when the data could not be loaded:
  \<^verbatim>\<open>load_data\<close> catches the exception, the frame stays \<^verbatim>\<open>None\<close>, and every tool
  returns the text "Error: Data not loaded.". An exception raised by the tool's call is not
  caught by the planner.
\<close>

theorem planner_embeds_tool_text:
  fixes query :: string
  defines "t \<equiv> fst (keyword_routing (lower query))"
  defines "plan \<equiv> snd (keyword_routing (lower query))"
  shows "(\<forall>g' result. invoke w t g = (g', Inr result) \<longrightarrow>
            snd (snd (mock_process_query w g query)) = Inr (final_response plan result))
       \<and> (TOOLS_INSTANCE g = None \<and> makedirs_raises w = None
            \<and> (\<exists>e. read_and_merge w = Inl e \<and> isinstance_Exception e) \<longrightarrow>
            snd (snd (mock_process_query w g query)) =
              Inr (final_response plan ''Error: Data not loaded.''))
       \<and> ((\<exists>inst. TOOLS_INSTANCE g = Some inst \<and> df inst = None) \<longrightarrow>
            snd (snd (mock_process_query w g query)) =
              Inr (final_response plan ''Error: Data not loaded.''))
       \<and> (\<forall>g' e. invoke w t g = (g', Inl e) \<longrightarrow>
            snd (snd (mock_process_query w g query)) = Inl e)"
proof -
  have kr: "keyword_routing (lower query) = (t, plan)"
    by (simp add: t_def plan_def)
  note res = mock_process_query_result [OF kr, of w g]
  have a: "\<forall>g' result. invoke w t g = (g', Inr result) \<longrightarrow>
            snd (snd (mock_process_query w g query)) = Inr (final_response plan result)"
    by (simp add: res)
  have b: "TOOLS_INSTANCE g = None \<and> makedirs_raises w = None
            \<and> (\<exists>e. read_and_merge w = Inl e \<and> isinstance_Exception e) \<longrightarrow>
            snd (snd (mock_process_query w g query)) =
              Inr (final_response plan ''Error: Data not loaded.'')"
    by (auto simp: res invoke_unloaded)
  have c: "(\<exists>inst. TOOLS_INSTANCE g = Some inst \<and> df inst = None) \<longrightarrow>
            snd (snd (mock_process_query w g query)) =
              Inr (final_response plan ''Error: Data not loaded.'')"
    by (auto simp: res invoke_df_None)
  have d: "\<forall>g' e. invoke w t g = (g', Inl e) \<longrightarrow>
            snd (snd (mock_process_query w g query)) = Inl e"
    by (simp add: res)
  from a b c d show ?thesis by blast
qed

theorem planner_embeds_tool_text_witness:
  "snd (snd (mock_process_query unloaded_world example_globals ''Hello'')) =
     Inr (final_response ''check context'' ''Error: Data not loaded.'')"
proof -
  have kr: "keyword_routing (lower ''Hello'') = (Get_data_summary, ''check context'')"
    by (rule keyword_routing_summary) (simp_all only: lower_hello hello_rules not_False_eq_True)
  have pre: "TOOLS_INSTANCE example_globals = None \<and> makedirs_raises unloaded_world = None
       \<and> (\<exists>e. read_and_merge unloaded_world = Inl e \<and> isinstance_Exception e)"
    by (simp add: example_globals_def unloaded_world_def example_world_def)
  from planner_embeds_tool_text [where w = unloaded_world and g = example_globals and query = "''Hello''"] pre
  show ?thesis by (simp add: kr)
qed

section \<open>Mode selection and fallback\<close>

text \<open>
  Claim C2. When the environment variable is absent or starts with "paste_your", the
  constructor prints one line and sets mock mode; no statement of the block that builds the
  LangChain agent runs, and no executor is stored.
\<close>

theorem init_without_credential:
  assumes "getenv_OPENAI_API_KEY w = None
         \<or> (\<exists>k. getenv_OPENAI_API_KEY w = Some k \<and> startswith k ''paste_your'')"
  shows "ShopEaseAnalyst_init w =
           ([Print ''[SYSTEM] No valid OPENAI_API_KEY found. Switching to MOCK AGENT mode.''],
            Inr \<lparr>use_mock = True, agent_executor = None\<rparr>)
       \<and> (\<forall>s. Setup s \<notin> set (fst (ShopEaseAnalyst_init w)))"
  using assms by (auto simp: ShopEaseAnalyst_init_def)

theorem init_without_credential_witness:
  "ShopEaseAnalyst_init example_world =
     ([Print ''[SYSTEM] No valid OPENAI_API_KEY found. Switching to MOCK AGENT mode.''],
      Inr \<lparr>use_mock = True, agent_executor = None\<rparr>)
   \<and> ShopEaseAnalyst_init (example_world\<lparr>getenv_OPENAI_API_KEY := None\<rparr>) =
     ([Print ''[SYSTEM] No valid OPENAI_API_KEY found. Switching to MOCK AGENT mode.''],
      Inr \<lparr>use_mock = True, agent_executor = None\<rparr>)"
proof -
  have a: "getenv_OPENAI_API_KEY example_world = None
         \<or> (\<exists>k. getenv_OPENAI_API_KEY example_world = Some k \<and> startswith k ''paste_your'')"
    by (simp add: example_world_def startswith_def)
  have b: "getenv_OPENAI_API_KEY (example_world\<lparr>getenv_OPENAI_API_KEY := None\<rparr>) = None
         \<or> (\<exists>k. getenv_OPENAI_API_KEY (example_world\<lparr>getenv_OPENAI_API_KEY := None\<rparr>) = Some k
                \<and> startswith k ''paste_your'')"
    by simp
  from init_without_credential [OF a] init_without_credential [OF b]
  show ?thesis by blast
qed

lemma init_with_credential:
  assumes "getenv_OPENAI_API_KEY w = Some k" and "k \<noteq> []" and "\<not> startswith k ''paste_your''"
    and "\<forall>s. setup_raises w s = None"
  shows "ShopEaseAnalyst_init w =
           (map Setup setup_steps, Inr \<lparr>use_mock = False, agent_executor = Some (built_executor w)\<rparr>)"
  using assms by (simp add: ShopEaseAnalyst_init_def setup_steps_def)

lemma process_query_fall_back:
  assumes "\<not> use_mock self" and "agent_executor self = Some ex"
    and "ex query g = (evs, g1, Inl e)" and "isinstance_Exception e"
  shows "process_query w self g query =
           ([Print (NL @ ''[AGENT] Received Query: '' @ QUOTE @ query @ QUOTE),
             Invoke_agent_executor [(''input'', query)]] @ evs
            @ [Print (''[ERROR] LangChain execution failed: '' @ str_of e @ ''. Falling back to Mock.'')]
            @ fst (mock_process_query w g1 query),
            snd (mock_process_query w g1 query))"
  using assms
  by (simp add: process_query_def fall_back_def split: prod.splits)

lemma process_query_not_caught:
  assumes "\<not> use_mock self" and "agent_executor self = Some ex"
    and "ex query g = (evs, g1, Inl e)" and "\<not> isinstance_Exception e"
  shows "process_query w self g query =
           ([Print (NL @ ''[AGENT] Received Query: '' @ QUOTE @ query @ QUOTE),
             Invoke_agent_executor [(''input'', query)]] @ evs,
            g1, Inl e)"
  using assms by (simp add: process_query_def)

lemma primary_agent_fails:
  "\<not> use_mock primary_agent"
  "agent_executor primary_agent = Some (built_executor example_world)"
  "built_executor example_world ''Hello'' example_globals =
     ([], example_globals, Inl (Exception ''Connection error.''))"
  "isinstance_Exception (Exception ''Connection error.'')"
  by (simp_all add: primary_agent_def example_world_def)

lemma keyword_routing_hello:
  "keyword_routing (lower ''Hello'') = (Get_data_summary, ''check context'')"
  by (rule keyword_routing_summary) (simp_all only: lower_hello hello_rules not_False_eq_True)

lemma invoke_keyerror:
  "invoke keyerror_world t example_globals =
     (example_globals\<lparr>TOOLS_INSTANCE := Some \<lparr>df = Some 500\<rparr>\<rparr>,
      Inl (Exception (QUOTE @ ''is_churned'' @ QUOTE)))"
  by (simp add: invoke_def get_tools_instance_def DataAnalystTools_init_def load_data_def
      tool_method_def example_world_def keyerror_world_def example_globals_def)

text \<open>
  Claim C1, at two concrete inputs. First: the executor fails with a connection error, which
  \<^verbatim>\<open>process_query\<close> catches; the planner it then runs calls the summary tool on a frame
  without the column \<^verbatim>\<open>is_churned\<close>; the \<^verbatim>\<open>KeyError\<close> of the tool is raised inside the
  handler, where nothing catches it, and reaches the caller of \<^verbatim>\<open>process_query\<close>. Second:
  the call of the executor is interrupted from the keyboard; \<^verbatim>\<open>KeyboardInterrupt\<close> is not an
  \<^verbatim>\<open>Exception\<close>, the handler does not apply, the planner does not run, and the interrupt
  reaches the caller. In both cases no response is returned.
\<close>

theorem primary_fallback_raises_counterexample:
  "process_query keyerror_world primary_agent example_globals ''Hello'' =
     ([Print (NL @ ''[AGENT] Received Query: '' @ QUOTE @ ''Hello'' @ QUOTE),
       Invoke_agent_executor [(''input'', ''Hello'')],
       Print ''[ERROR] LangChain execution failed: Connection error.. Falling back to Mock.'',
       Print ''[MOCK-AGENT] Consulting Knowledge Base...'',
       Invoke_get_business_context ''Hello'',
       Print (''[MOCK-AGENT] Retrieved Context: ''
              @ take 50 (get_business_context example_globals ''Hello'') @ ''...''),
       Print ''[MOCK-AGENT] Decided to call tool: get_data_summary'',
       Invoke Get_data_summary []],
      example_globals\<lparr>TOOLS_INSTANCE := Some \<lparr>df = Some 500\<rparr>\<rparr>,
      Inl (Exception (QUOTE @ ''is_churned'' @ QUOTE)))
   \<and> process_query example_world interrupted_agent example_globals ''Hello'' =
     ([Print (NL @ ''[AGENT] Received Query: '' @ QUOTE @ ''Hello'' @ QUOTE),
       Invoke_agent_executor [(''input'', ''Hello'')]],
      example_globals,
      Inl (BaseException []))"
proof -
  have planner: "mock_process_query keyerror_world example_globals ''Hello'' =
     ([Print ''[MOCK-AGENT] Consulting Knowledge Base...'',
       Invoke_get_business_context ''Hello'',
       Print (''[MOCK-AGENT] Retrieved Context: ''
              @ take 50 (get_business_context example_globals ''Hello'') @ ''...''),
       Print ''[MOCK-AGENT] Decided to call tool: get_data_summary'',
       Invoke Get_data_summary []],
      example_globals\<lparr>TOOLS_INSTANCE := Some \<lparr>df = Some 500\<rparr>\<rparr>,
      Inl (Exception (QUOTE @ ''is_churned'' @ QUOTE)))"
    by (simp add: mock_process_query_eq [OF keyword_routing_hello invoke_keyerror])
  have first: "process_query keyerror_world primary_agent example_globals ''Hello'' =
     ([Print (NL @ ''[AGENT] Received Query: '' @ QUOTE @ ''Hello'' @ QUOTE),
       Invoke_agent_executor [(''input'', ''Hello'')]] @ []
      @ [Print (''[ERROR] LangChain execution failed: '' @ str_of (Exception ''Connection error.'')
                @ ''. Falling back to Mock.'')]
      @ fst (mock_process_query keyerror_world example_globals ''Hello''),
      snd (mock_process_query keyerror_world example_globals ''Hello''))"
    by (rule process_query_fall_back [OF primary_agent_fails])
  have second: "process_query example_world interrupted_agent example_globals ''Hello'' =
     ([Print (NL @ ''[AGENT] Received Query: '' @ QUOTE @ ''Hello'' @ QUOTE),
       Invoke_agent_executor [(''input'', ''Hello'')]] @ [],
      example_globals,
      Inl (BaseException []))"
    by (rule process_query_not_caught) (simp_all add: interrupted_agent_def)
  from first second show ?thesis
    by (simp add: planner)
qed

text \<open>
  Claim C1, amended. In primary mode, when the call of the executor raises an exception of
  class \<^verbatim>\<open>Exception\<close>, \<^verbatim>\<open>process_query\<close> catches it, prints it and runs the mock planner
  on the same query: the planner's events follow, and the planner's outcome is the outcome of
  \<^verbatim>\<open>process_query\<close>, so the exception of the executor appears in the printed line only.
  That outcome is the planner's response whenever the planner's tool returns a text; an
  exception of the planner's tool call is not caught and reaches the caller. An exception of
  the executor outside class \<^verbatim>\<open>Exception\<close> is not caught either: the planner does not run
  and the exception reaches the caller.
\<close>

theorem primary_failure_falls_back:
  assumes "\<not> use_mock self" and "agent_executor self = Some ex"
    and "ex query g = (evs, g1, Inl e)"
  shows "(isinstance_Exception e \<longrightarrow>
            process_query w self g query =
              ([Print (NL @ ''[AGENT] Received Query: '' @ QUOTE @ query @ QUOTE),
                Invoke_agent_executor [(''input'', query)]] @ evs
               @ [Print (''[ERROR] LangChain execution failed: '' @ str_of e
                         @ ''. Falling back to Mock.'')]
               @ fst (mock_process_query w g1 query),
               snd (mock_process_query w g1 query))
          \<and> (\<forall>g2 result.
                invoke w (fst (keyword_routing (lower query))) g1 = (g2, Inr result) \<longrightarrow>
                snd (snd (process_query w self g query)) =
                  Inr (final_response (snd (keyword_routing (lower query))) result))
          \<and> (\<forall>g2 e'.
                invoke w (fst (keyword_routing (lower query))) g1 = (g2, Inl e') \<longrightarrow>
                snd (snd (process_query w self g query)) = Inl e'))
       \<and> (\<not> isinstance_Exception e \<longrightarrow>
            process_query w self g query =
              ([Print (NL @ ''[AGENT] Received Query: '' @ QUOTE @ query @ QUOTE),
                Invoke_agent_executor [(''input'', query)]] @ evs,
               g1, Inl e))"
proof (intro conjI impI)
  assume exc: "isinstance_Exception e"
  note eq = process_query_fall_back [OF assms exc, of w]
  note res = mock_process_query_result [of query "fst (keyword_routing (lower query))"
      "snd (keyword_routing (lower query))" w g1]
  show "process_query w self g query =
              ([Print (NL @ ''[AGENT] Received Query: '' @ QUOTE @ query @ QUOTE),
                Invoke_agent_executor [(''input'', query)]] @ evs
               @ [Print (''[ERROR] LangChain execution failed: '' @ str_of e
                         @ ''. Falling back to Mock.'')]
               @ fst (mock_process_query w g1 query),
               snd (mock_process_query w g1 query))"
    by (rule eq)
  show "\<forall>g2 result.
                invoke w (fst (keyword_routing (lower query))) g1 = (g2, Inr result) \<longrightarrow>
                snd (snd (process_query w self g query)) =
                  Inr (final_response (snd (keyword_routing (lower query))) result)"
    by (simp add: eq res)
  show "\<forall>g2 e'.
                invoke w (fst (keyword_routing (lower query))) g1 = (g2, Inl e') \<longrightarrow>
                snd (snd (process_query w self g query)) = Inl e'"
    by (simp add: eq res)
next
  assume "\<not> isinstance_Exception e"
  then show "process_query w self g query =
              ([Print (NL @ ''[AGENT] Received Query: '' @ QUOTE @ query @ QUOTE),
                Invoke_agent_executor [(''input'', query)]] @ evs,
               g1, Inl e)"
    by (rule process_query_not_caught [OF assms])
qed

theorem primary_failure_falls_back_witness:
  "snd (snd (process_query example_world primary_agent example_globals ''Hello'')) =
     Inr (final_response ''check context'' ''result of get_data_summary'')"
proof -
  have inv: "invoke example_world (fst (keyword_routing (lower ''Hello''))) example_globals =
               (example_globals\<lparr>TOOLS_INSTANCE := Some \<lparr>df = Some 500\<rparr>\<rparr>,
                Inr (''result of '' @ tool_name Get_data_summary))"
    by (simp add: keyword_routing_hello invoke_example)
  note inst = primary_failure_falls_back [where w = example_world,
      OF primary_agent_fails(1) primary_agent_fails(2) primary_agent_fails(3)]
  from inst primary_agent_fails(4)
  have "\<forall>g2 result.
          invoke example_world (fst (keyword_routing (lower ''Hello''))) example_globals =
            (g2, Inr result) \<longrightarrow>
          snd (snd (process_query example_world primary_agent example_globals ''Hello'')) =
            Inr (final_response (snd (keyword_routing (lower ''Hello''))) result)"
    by blast
  from this [rule_format, OF inv] show ?thesis
    by (simp add: keyword_routing_hello)
qed

section \<open>The delivery-time scenario\<close>

lemma str_in_middle: "str_in sub (ps @ sub @ ss)"
  unfolding str_in_iff by blast

lemma final_response_contains:
  "str_in plan (final_response plan result)"
  "str_in result (final_response plan result)"
  "str_in recommendation_footer (final_response plan result)"
proof -
  have "final_response plan result =
          (NL @ ''--- AGENT RESPONSE (MOCK MODE) ---'' @ NL
           @ ''Based on the Mock Logic: The user asked about '' @ QUOTE)
          @ plan
          @ (QUOTE @ ''.'' @ NL @ NL @ ''Analysis Result:'' @ NL @ result @ NL @ NL
             @ recommendation_footer)"
    by (simp add: final_response_def)
  then show "str_in plan (final_response plan result)"
    by (simp only: str_in_middle)
  have "final_response plan result =
          (NL @ ''--- AGENT RESPONSE (MOCK MODE) ---'' @ NL
           @ ''Based on the Mock Logic: The user asked about '' @ QUOTE @ plan @ QUOTE @ ''.'' @ NL
           @ NL @ ''Analysis Result:'' @ NL)
          @ result
          @ (NL @ NL @ recommendation_footer)"
    by (simp add: final_response_def)
  then show "str_in result (final_response plan result)"
    by (simp only: str_in_middle)
  have "final_response plan result =
          (NL @ ''--- AGENT RESPONSE (MOCK MODE) ---'' @ NL
           @ ''Based on the Mock Logic: The user asked about '' @ QUOTE @ plan @ QUOTE @ ''.'' @ NL
           @ NL @ ''Analysis Result:'' @ NL @ result @ NL @ NL)
          @ recommendation_footer @ []"
    by (simp add: final_response_def)
  then show "str_in recommendation_footer (final_response plan result)"
    by (simp only: str_in_middle)
qed

lemma lower_delivery_churn:
  "lower ''Does delivery time affect churn?'' = ''does delivery time affect churn?''"
  by (simp add: eval_strings)

lemma delivery_churn_rules:
  "str_in ''churn'' ''does delivery time affect churn?''"
  "str_in ''delivery'' ''does delivery time affect churn?''"
  "\<not> str_in ''budget'' ''does delivery time affect churn?''"
  "\<not> str_in ''cost'' ''does delivery time affect churn?''"
  by (simp_all add: startswith_def)

lemma relevant_docs_delivery_churn:
  "relevant_docs self ''Does delivery time affect churn?'' =
     [problem (documents self), hypotheses (documents self)]"
  unfolding relevant_docs_rules lower_delivery_churn Let_def
  by (simp only: delivery_churn_rules simp_thms if_True if_False append.simps list.simps)

lemma take_50_problem:
  "take 50 (problem (documents BusinessKnowledgeBase_init) @ rest) =
     ''Leadership is concerned about increasing customer ''"
  by (simp add: BusinessKnowledgeBase_init_def)

text \<open>
  Claim C5. The query "Does delivery time affect churn?" in mock mode: the knowledge base
  returns the problem and the hypotheses documents, in that order; the routing takes the
  delivery branch and the delivery-impact tool is called; when the tool returns a text, the
  response is the template filled with the label "investigate delivery times" and that text,
  and it contains the label, the text and the recommendation footer.
\<close>

theorem delivery_time_scenario:
  assumes "RAG_INSTANCE g = BusinessKnowledgeBase_init"
    and "invoke w Analyze_delivery_impact g = (g', Inr result)"
  shows "keyword_routing (lower ''Does delivery time affect churn?'') =
           (Analyze_delivery_impact, ''investigate delivery times'')
       \<and> relevant_docs (RAG_INSTANCE g) ''Does delivery time affect churn?'' =
           [problem (documents BusinessKnowledgeBase_init),
            hypotheses (documents BusinessKnowledgeBase_init)]
       \<and> get_business_context g ''Does delivery time affect churn?'' =
           problem (documents BusinessKnowledgeBase_init) @ NL
           @ hypotheses (documents BusinessKnowledgeBase_init)
       \<and> mock_process_query w g ''Does delivery time affect churn?'' =
           ([Print ''[MOCK-AGENT] Consulting Knowledge Base...'',
             Invoke_get_business_context ''Does delivery time affect churn?'',
             Print ''[MOCK-AGENT] Retrieved Context: Leadership is concerned about increasing customer ...'',
             Print ''[MOCK-AGENT] Decided to call tool: analyze_delivery_impact'',
             Invoke Analyze_delivery_impact []],
            g',
            Inr (final_response ''investigate delivery times'' result))
       \<and> str_in ''investigate delivery times'' (final_response ''investigate delivery times'' result)
       \<and> str_in result (final_response ''investigate delivery times'' result)
       \<and> str_in recommendation_footer (final_response ''investigate delivery times'' result)"
proof -
  have kr: "keyword_routing (lower ''Does delivery time affect churn?'') =
           (Analyze_delivery_impact, ''investigate delivery times'')"
    by (rule keyword_routing_delivery) (simp only: lower_delivery_churn delivery_churn_rules)
  have docs: "relevant_docs (RAG_INSTANCE g) ''Does delivery time affect churn?'' =
           [problem (documents BusinessKnowledgeBase_init),
            hypotheses (documents BusinessKnowledgeBase_init)]"
    by (simp only: relevant_docs_delivery_churn assms(1))
  have ctx: "get_business_context g ''Does delivery time affect churn?'' =
           problem (documents BusinessKnowledgeBase_init) @ NL
           @ hypotheses (documents BusinessKnowledgeBase_init)"
    by (simp add: get_business_context_def retrieve_context_def docs)
  have t50: "take 50 (get_business_context g ''Does delivery time affect churn?'') =
           ''Leadership is concerned about increasing customer ''"
    by (simp only: ctx take_50_problem)
  have run: "mock_process_query w g ''Does delivery time affect churn?'' =
           ([Print ''[MOCK-AGENT] Consulting Knowledge Base...'',
             Invoke_get_business_context ''Does delivery time affect churn?'',
             Print ''[MOCK-AGENT] Retrieved Context: Leadership is concerned about increasing customer ...'',
             Print ''[MOCK-AGENT] Decided to call tool: analyze_delivery_impact'',
             Invoke Analyze_delivery_impact []],
            g',
            Inr (final_response ''investigate delivery times'' result))"
    by (simp add: mock_process_query_eq [OF kr assms(2)] t50)
  from kr docs ctx run final_response_contains [where plan = "''investigate delivery times''" and result = result]
  show ?thesis by blast
qed

theorem delivery_time_scenario_witness:
  "mock_process_query example_world example_globals ''Does delivery time affect churn?'' =
     ([Print ''[MOCK-AGENT] Consulting Knowledge Base...'',
       Invoke_get_business_context ''Does delivery time affect churn?'',
       Print ''[MOCK-AGENT] Retrieved Context: Leadership is concerned about increasing customer ...'',
       Print ''[MOCK-AGENT] Decided to call tool: analyze_delivery_impact'',
       Invoke Analyze_delivery_impact []],
      example_globals\<lparr>TOOLS_INSTANCE := Some \<lparr>df = Some 500\<rparr>\<rparr>,
      Inr (final_response ''investigate delivery times'' ''result of analyze_delivery_impact''))"
proof -
  have a: "RAG_INSTANCE example_globals = BusinessKnowledgeBase_init"
    by (simp add: example_globals_def)
  have b: "invoke example_world Analyze_delivery_impact example_globals =
             (example_globals\<lparr>TOOLS_INSTANCE := Some \<lparr>df = Some 500\<rparr>\<rparr>,
              Inr ''result of analyze_delivery_impact'')"
    by (simp add: invoke_example)
  from delivery_time_scenario [OF a b] show ?thesis by blast
qed

end
